theory Spec2Isabelle
  imports Main
begin

section \<open>JavaScript strings and the string methods the extension calls\<close>

text \<open>
  A JavaScript string is a sequence of UTF-16 code units. The embedding takes the
  strings whose code units lie in 0..255 (ASCII and the Latin-1 supplement): one
  \<^typ>\<open>char\<close> per code unit. On that range \<^verbatim>\<open>toLowerCase\<close> maps code units to code
  units of the same range and \<^verbatim>\<open>trim\<close> removes the code units 9..13, 32 and 160, so
  the definitions below are the methods of the language restricted to these strings.
\<close>

text \<open>White space and line terminators of ECMAScript below 256: what \<^verbatim>\<open>trim\<close> removes.\<close>

definition isWhiteSpace :: "char \<Rightarrow> bool" where
  "isWhiteSpace c =
     (let n = (of_char c :: nat) in (9 \<le> n \<and> n \<le> 13) \<or> n = 32 \<or> n = 160)"

text \<open>
  Lower-casing of one code unit: A..Z and the capital letters 192..222 of Latin-1
  (all but the multiplication sign 215) move up by 32; everything else is kept.
\<close>

definition lowerUnit :: "char \<Rightarrow> char" where
  "lowerUnit c =
     (let n = (of_char c :: nat)
      in if (65 \<le> n \<and> n \<le> 90) \<or> (192 \<le> n \<and> n \<le> 222 \<and> n \<noteq> 215)
         then char_of (n + 32) else c)"

text \<open>\<^verbatim>\<open>s.toLowerCase()\<close>\<close>

definition toLowerCase :: "string \<Rightarrow> string" where
  "toLowerCase s = map lowerUnit s"

text \<open>\<^verbatim>\<open>s.trim()\<close>: white space is removed at both ends, never inside.\<close>

definition trim :: "string \<Rightarrow> string" where
  "trim s = rev (dropWhile isWhiteSpace (rev (dropWhile isWhiteSpace s)))"

text \<open>\<^verbatim>\<open>s.startsWith(p)\<close>\<close>

fun startsWith :: "string \<Rightarrow> string \<Rightarrow> bool" where
  "startsWith s [] = True"
| "startsWith [] (p # ps) = False"
| "startsWith (c # cs) (p # ps) = (c = p \<and> startsWith cs ps)"

text \<open>\<^verbatim>\<open>s.includes(sub)\<close>: \<open>sub\<close> occurs in \<open>s\<close> at some position.\<close>

fun includesStr :: "string \<Rightarrow> string \<Rightarrow> bool" where
  "includesStr [] sub = (sub = [])"
| "includesStr (c # cs) sub = (startsWith (c # cs) sub \<or> includesStr cs sub)"

text \<open>
  \<^verbatim>\<open>s.split(sep)\<close> for a string separator. The text is scanned from the left; at each
  occurrence of the separator the piece read so far is closed and the scan goes on
  behind the separator, so occurrences never overlap. The piece behind the last
  separator is always produced, also when it is empty. With the empty separator the
  language splits into single code units.
\<close>

function splitFrom :: "string \<Rightarrow> string \<Rightarrow> string \<Rightarrow> string list" where
  "splitFrom sep cur [] = [cur]"
| "splitFrom sep cur (c # cs) =
     (if sep \<noteq> [] \<and> startsWith (c # cs) sep
      then cur # splitFrom sep [] (drop (length sep) (c # cs))
      else splitFrom sep (cur @ [c]) cs)"
  by pat_completeness auto
termination
  by (relation "measure (\<lambda>(sep, cur, s). length s)") auto

definition split :: "string \<Rightarrow> string \<Rightarrow> string list" where
  "split s sep = (if sep = [] then map (\<lambda>c. [c]) s else splitFrom sep [] s)"

text \<open>\<^verbatim>\<open>xs.join(sep)\<close> on an array of strings.\<close>

fun join :: "string list \<Rightarrow> string \<Rightarrow> string" where
  "join [] sep = []"
| "join [x] sep = x"
| "join (x # y # ys) sep = x @ sep @ join (y # ys) sep"

text \<open>\<^verbatim>\<open>xs.slice(n)\<close> for a start index \<open>n \<ge> 0\<close>.\<close>

definition slice :: "'a list \<Rightarrow> nat \<Rightarrow> 'a list" where
  "slice xs n = drop n xs"

text \<open>
  \<^verbatim>\<open>line.replace(/^- /, '')\<close>: the pattern is anchored at the start of the string and
  has no global flag, so one dash followed by one space is removed at the very
  start, or nothing is changed.
\<close>

fun replaceMarker :: "string \<Rightarrow> string" where
  "replaceMarker (c # d # rest) = (if c = CHR ''-'' \<and> d = CHR '' '' then rest else c # d # rest)"
| "replaceMarker line = line"

section \<open>The response parser\<close>

text \<open>The interface \<^verbatim>\<open>ProjectAnalysis\<close>.\<close>

record ProjectAnalysis =
  projectName :: string
  techStack :: "string list"
  projectIdeas :: "string list"
  folderStructureAnalysis :: string
  summary :: string

text \<open>Exceptions of the language: a \<^verbatim>\<open>TypeError\<close> of the runtime, or \<^verbatim>\<open>new Error(msg)\<close>.\<close>

datatype js_error = TypeError | Error string

text \<open>The object literal \<^verbatim>\<open>result\<close> at the start of \<^verbatim>\<open>parseAiResponse\<close>.\<close>

definition initialResult :: ProjectAnalysis where
  "initialResult =
     \<lparr>projectName = [], techStack = [], projectIdeas = [],
      folderStructureAnalysis = [], summary = []\<rparr>"

text \<open>\<^verbatim>\<open>line => line.replace(/^- /, '').trim()\<close>\<close>

definition listEntry :: "string \<Rightarrow> string" where
  "listEntry line = trim (replaceMarker line)"

text \<open>
  The callback of \<^verbatim>\<open>sections.forEach\<close>. It assigns to fields of \<^verbatim>\<open>result\<close>, so the
  record is passed in and returned. \<^verbatim>\<open>lines[0]\<close> of an empty array is
  \<^verbatim>\<open>undefined\<close>, on which \<^verbatim>\<open>toLowerCase\<close> raises a \<^verbatim>\<open>TypeError\<close>.
\<close>

definition sectionCallback :: "ProjectAnalysis \<Rightarrow> string \<Rightarrow> js_error + ProjectAnalysis" where
  "sectionCallback result section =
     (let lines = split section ''\<newline>'' in
      case lines of
        [] \<Rightarrow> Inl TypeError
      | line0 # _ \<Rightarrow>
          (let header = toLowerCase line0 in
           if includesStr header ''project name'' then
             Inr (result\<lparr>projectName := trim (join (slice lines 1) '' '')\<rparr>)
           else if includesStr header ''tech stack'' then
             Inr (result\<lparr>techStack := map listEntry (slice lines 1)\<rparr>)
           else if includesStr header ''project purpose'' \<or> includesStr header ''project ideas'' then
             Inr (result\<lparr>projectIdeas := map listEntry (slice lines 1)\<rparr>)
           else if includesStr header ''folder structure'' then
             Inr (result\<lparr>folderStructureAnalysis := join (slice lines 1) ''\<newline>''\<rparr>)
           else if includesStr header ''summary'' then
             Inr (result\<lparr>summary := join (slice lines 1) ''\<newline>''\<rparr>)
           else Inr result))"

text \<open>\<^verbatim>\<open>sections.forEach(...)\<close>: the sections in order; an exception ends the loop.\<close>

fun forEach :: "string list \<Rightarrow> ProjectAnalysis \<Rightarrow> js_error + ProjectAnalysis" where
  "forEach [] result = Inr result"
| "forEach (section # rest) result =
     (case sectionCallback result section of
        Inl e \<Rightarrow> Inl e
      | Inr result' \<Rightarrow> forEach rest result')"

definition parseAiResponse :: "string \<Rightarrow> js_error + ProjectAnalysis" where
  "parseAiResponse rawText =
     (let sections = split rawText ''\<newline>\<newline>'' in forEach sections initialResult)"

section \<open>Sections, headings and the keyword rules\<close>

text \<open>
  Names for the parts of a section that the callback reads: its lines, its heading
  (the first line, lower-cased) and its body (the lines after the first). An array
  without a first line has no heading; \<open>heading\<close> gives the empty string there.
\<close>

definition sectionLines :: "string \<Rightarrow> string list" where
  "sectionLines section = split section ''\<newline>''"

definition heading :: "string \<Rightarrow> string" where
  "heading section =
     (case sectionLines section of [] \<Rightarrow> [] | line0 # _ \<Rightarrow> toLowerCase line0)"

definition body :: "string \<Rightarrow> string list" where
  "body section = slice (sectionLines section) 1"

text \<open>The five fields of the record, and the value of a field: a text or a sequence.\<close>

datatype field = ProjectName | TechStack | ProjectIdeas | FolderStructureAnalysis | Summary

datatype fieldValue = Text string | Items "string list"

fun getField :: "field \<Rightarrow> ProjectAnalysis \<Rightarrow> fieldValue" where
  "getField ProjectName r = Text (projectName r)"
| "getField TechStack r = Items (techStack r)"
| "getField ProjectIdeas r = Items (projectIdeas r)"
| "getField FolderStructureAnalysis r = Text (folderStructureAnalysis r)"
| "getField Summary r = Text (summary r)"

text \<open>
  The rules as the specification words them: an ordered list of keyword sets, each
  with the field it fills; the first rule with a keyword occurring in the heading
  decides, and a heading no rule matches belongs to no field.
\<close>

definition keywordRules :: "(string list \<times> field) list" where
  "keywordRules =
     [([''project name''], ProjectName),
      ([''tech stack''], TechStack),
      ([''project purpose'', ''project ideas''], ProjectIdeas),
      ([''folder structure''], FolderStructureAnalysis),
      ([''summary''], Summary)]"

fun firstMatch :: "(string list \<times> field) list \<Rightarrow> string \<Rightarrow> field option" where
  "firstMatch [] header = None"
| "firstMatch ((kws, f) # rules) header =
     (if list_ex (includesStr header) kws then Some f else firstMatch rules header)"

definition sectionField :: "string \<Rightarrow> field option" where
  "sectionField section = firstMatch keywordRules (heading section)"

text \<open>All keyword substrings, in the order of the rules.\<close>

definition keywordList :: "string list" where
  "keywordList = concat (map fst keywordRules)"

text \<open>
  The value the specification gives a field from the body lines of a matching
  section: joined with single spaces and trimmed for the project name, one stripped
  and trimmed entry per line for the two sequences, rejoined with line breaks for
  the two text blocks.
\<close>

fun transform :: "field \<Rightarrow> string list \<Rightarrow> fieldValue" where
  "transform ProjectName ls = Text (trim (join ls '' ''))"
| "transform TechStack ls = Items (map listEntry ls)"
| "transform ProjectIdeas ls = Items (map listEntry ls)"
| "transform FolderStructureAnalysis ls = Text (join ls ''\<newline>'')"
| "transform Summary ls = Text (join ls ''\<newline>'')"

text \<open>Assigning that value to the field, all other fields kept.\<close>

fun assign :: "field \<Rightarrow> string list \<Rightarrow> ProjectAnalysis \<Rightarrow> ProjectAnalysis" where
  "assign ProjectName ls r = r\<lparr>projectName := trim (join ls '' '')\<rparr>"
| "assign TechStack ls r = r\<lparr>techStack := map listEntry ls\<rparr>"
| "assign ProjectIdeas ls r = r\<lparr>projectIdeas := map listEntry ls\<rparr>"
| "assign FolderStructureAnalysis ls r = r\<lparr>folderStructureAnalysis := join ls ''\<newline>''\<rparr>"
| "assign Summary ls r = r\<lparr>summary := join ls ''\<newline>''\<rparr>"

section \<open>The result object in a store\<close>

text \<open>
  \<^verbatim>\<open>result\<close> is an object: the literal allocates it, the callback writes to it
  through its reference, and the reference is returned. The store lists the records
  allocated so far, a reference is an index into it, and it is threaded through
  successive calls, so that anything one call leaves behind is there for the next.
\<close>

type_synonym store = "ProjectAnalysis list"

type_synonym ref = nat

definition alloc :: "ProjectAnalysis \<Rightarrow> store \<Rightarrow> ref \<times> store" where
  "alloc v h = (length h, h @ [v])"

fun forEachRef :: "string list \<Rightarrow> ref \<Rightarrow> store \<Rightarrow> js_error + store" where
  "forEachRef [] a h = Inr h"
| "forEachRef (section # rest) a h =
     (case sectionCallback (h ! a) section of
        Inl e \<Rightarrow> Inl e
      | Inr v \<Rightarrow> forEachRef rest a (h[a := v]))"

definition parseAiResponseRef :: "string \<Rightarrow> store \<Rightarrow> js_error + (ref \<times> store)" where
  "parseAiResponseRef rawText h =
     (let (result, h1) = alloc initialResult h;
          sections = split rawText ''\<newline>\<newline>''
      in case forEachRef sections result h1 of
           Inl e \<Rightarrow> Inl e
         | Inr h2 \<Rightarrow> Inr (result, h2))"

section \<open>The call of the remote service\<close>

text \<open>
  What \<^verbatim>\<open>analyzeWithDeepSeek\<close> does to the outside, in order: it reads the
  configuration of the extension and it posts one request. The request carries the
  address, the headers and the fields of the JSON body.
\<close>

record request =
  url :: string
  httpMethod :: string
  contentType :: string
  authorization :: string
  model :: string
  role :: string
  content :: string
  temperature :: string

datatype effect = GetConfiguration string | Fetch request

text \<open>
  The reply: \<^verbatim>\<open>response.ok\<close>, \<^verbatim>\<open>response.statusText\<close>, and what
  \<^verbatim>\<open>(await response.json()).choices[0].message.content\<close> evaluates to, which is an
  exception when the body is no JSON or lacks that path.
\<close>

record response =
  ok :: bool
  statusText :: string
  messageContent :: "js_error + string"

text \<open>
  The surroundings of the call: \<^verbatim>\<open>JSON.stringify(files, null, 2)\<close> on the key files
  and \<^verbatim>\<open>fetch\<close>, whose promise is rejected (\<open>Inl\<close>) when the network fails.
\<close>

record env =
  stringify :: "(string \<times> string) list \<Rightarrow> string"
  fetch :: "request \<Rightarrow> js_error + response"

text \<open>\<^verbatim>\<open>const apiKey = ''\<close>\<close>

definition apiKey :: string where
  "apiKey = []"

text \<open>The template literal \<^verbatim>\<open>prompt\<close>.\<close>

definition prompt :: "string \<Rightarrow> string \<Rightarrow> string" where
  "prompt structure filesJson =
     ''Analyze this project structure and files. Provide:\<newline>'' @
     ''1. Project name (from directory structure)\<newline>'' @
     ''2. Tech stack (programming languages, frameworks, tools)\<newline>'' @
     ''3. Project purpose/ideas (based on files and structure)\<newline>'' @
     ''4. Folder structure analysis\<newline>'' @
     ''5. Brief summary\<newline>'' @
     ''\<newline>'' @
     ''Project structure:\<newline>'' @
     structure @ ''\<newline>'' @
     ''\<newline>'' @
     ''Key files content:\<newline>'' @
     filesJson"

text \<open>
  The body of \<^verbatim>\<open>analyzeWithDeepSeek\<close> with the key as a parameter. It returns the
  effects performed, in order, and the outcome: an exception or the record. A string
  is falsy exactly when it is empty.
\<close>

definition analyzeWithKey ::
  "string \<Rightarrow> env \<Rightarrow> string \<Rightarrow> (string \<times> string) list \<Rightarrow> effect list \<times> (js_error + ProjectAnalysis)" where
  "analyzeWithKey key e structure files =
     (let config = [GetConfiguration ''autopilot''] in
      if key = [] then
        (config, Inl (Error ''DeepSeek API key not configured. Check extension settings.''))
      else
        (let req = \<lparr>url = ''https://api.deepseek.com/v1/chat/completions'',
                    httpMethod = ''POST'',
                    contentType = ''application/json'',
                    authorization = ''Bearer '' @ key,
                    model = ''deepseek-chat'',
                    role = ''user'',
                    content = prompt structure (stringify e files),
                    temperature = ''0.7''\<rparr>;
             done = config @ [Fetch req]
         in case fetch e req of
              Inl err \<Rightarrow> (done, Inl err)
            | Inr resp \<Rightarrow>
                if \<not> ok resp then
                  (done, Inl (Error (''API request failed: '' @ statusText resp)))
                else
                  (case messageContent resp of
                     Inl err \<Rightarrow> (done, Inl err)
                   | Inr rawAnalysis \<Rightarrow> (done, parseAiResponse rawAnalysis))))"

definition analyzeWithDeepSeek ::
  "env \<Rightarrow> string \<Rightarrow> (string \<times> string) list \<Rightarrow> effect list \<times> (js_error + ProjectAnalysis)" where
  "analyzeWithDeepSeek e structure files = analyzeWithKey apiKey e structure files"

section \<open>Facts about the string methods\<close>

lemma splitFrom_not_Nil: "splitFrom sep cur s \<noteq> []"
  by (induction sep cur s rule: splitFrom.induct) auto

lemma split_not_Nil: "sep \<noteq> [] \<Longrightarrow> split s sep \<noteq> []"
  by (simp add: split_def splitFrom_not_Nil)

section \<open>The parser never raises\<close>

lemma sectionCallback_total: "\<exists>r'. sectionCallback r s = Inr r'"
proof (cases "split s ''\<newline>''")
  case Nil
  then show ?thesis using split_not_Nil [of "''\<newline>''" s] by simp
next
  case (Cons line0 rest)
  then show ?thesis by (simp add: sectionCallback_def Let_def)
qed

lemma forEach_total: "\<exists>r'. forEach ss r = Inr r'"
proof (induction ss arbitrary: r)
  case Nil
  show ?case by simp
next
  case (Cons s ss)
  obtain r1 where "sectionCallback r s = Inr r1"
    using sectionCallback_total by blast
  then show ?case using Cons.IH [of r1] by simp
qed

lemma parseAiResponse_Inr: "\<exists>r. parseAiResponse rawText = Inr r"
  by (simp add: parseAiResponse_def forEach_total)

text \<open>
  Claim C1. For every input string \<^verbatim>\<open>parseAiResponse\<close> returns a record and raises no
  exception: the only exception the body could raise, the \<^verbatim>\<open>TypeError\<close> of reading
  the heading of a section without lines, cannot occur, since splitting at line
  breaks always yields at least one line.
\<close>

theorem parseAiResponse_never_raises: "\<exists>r. parseAiResponse rawText = Inr r"
  unfolding parseAiResponse_def Let_def by (rule forEach_total)

section \<open>More facts about splitting\<close>

lemma splitFrom_no_occurrence:
  "\<not> includesStr s sep \<Longrightarrow> splitFrom sep cur s = [cur @ s]"
  by (induction s arbitrary: cur) auto

lemma split_no_occurrence:
  "sep \<noteq> [] \<Longrightarrow> \<not> includesStr s sep \<Longrightarrow> split s sep = [s]"
  by (simp add: split_def splitFrom_no_occurrence)

lemma sectionLines_not_Nil: "sectionLines s \<noteq> []"
  by (simp add: sectionLines_def split_not_Nil)

lemma replaceMarker_eq:
  "replaceMarker line = (if startsWith line ''- '' then drop 2 line else line)"
  by (cases line rule: replaceMarker.cases) auto

section \<open>The callback as a dispatch on the keyword rules\<close>

text \<open>
  The cascade of conditionals in the callback is the ordered rule list: the section
  is given to the field of the first rule that matches its heading, and to none when
  no rule matches.
\<close>

lemma sectionCallback_assign:
  "sectionCallback r s =
     Inr (case sectionField s of None \<Rightarrow> r | Some f \<Rightarrow> assign f (body s) r)"
proof (cases "sectionLines s")
  case Nil
  then show ?thesis using sectionLines_not_Nil by simp
next
  case (Cons line0 rest)
  then have "split s ''\<newline>'' = line0 # rest"
    by (simp add: sectionLines_def)
  then show ?thesis
    by (simp add: sectionCallback_def sectionField_def heading_def body_def sectionLines_def
        keywordRules_def Let_def)
qed

lemma getField_assign:
  "getField g (assign f ls r) = (if g = f then transform f ls else getField g r)"
  by (cases f; cases g) simp_all

lemma assign_no_body: "assign f [] initialResult = initialResult"
  by (cases f) (simp_all add: initialResult_def trim_def)

lemma sectionField_None_iff:
  "sectionField s = None \<longleftrightarrow> (\<forall>k \<in> set keywordList. \<not> includesStr (heading s) k)"
  by (simp add: sectionField_def keywordList_def keywordRules_def)

lemma sectionField_ProjectName_iff:
  "sectionField s = Some ProjectName \<longleftrightarrow> includesStr (heading s) ''project name''"
  by (simp add: sectionField_def keywordRules_def)

lemma sectionField_TechStack_iff:
  "sectionField s = Some TechStack \<longleftrightarrow>
     includesStr (heading s) ''tech stack'' \<and> \<not> includesStr (heading s) ''project name''"
  by (auto simp add: sectionField_def keywordRules_def)

section \<open>The loop over the sections\<close>

lemma forEach_append:
  "forEach (xs @ ys) r = (case forEach xs r of Inl e \<Rightarrow> Inl e | Inr r' \<Rightarrow> forEach ys r')"
  by (induction xs arbitrary: r) (auto split: sum.splits)

text \<open>Sections given to other fields, or to none, leave a field as it is.\<close>

lemma forEach_keeps_field:
  "\<forall>s \<in> set ss. sectionField s \<noteq> Some f \<Longrightarrow> forEach ss r = Inr r' \<Longrightarrow>
   getField f r' = getField f r"
proof (induction ss arbitrary: r)
  case Nil
  then show ?case by simp
next
  case (Cons s ss)
  let ?r1 = "case sectionField s of None \<Rightarrow> r | Some g \<Rightarrow> assign g (body s) r"
  have step: "sectionCallback r s = Inr ?r1" by (rule sectionCallback_assign)
  have "sectionField s \<noteq> Some f" using Cons.prems(1) by simp
  then have keep: "getField f ?r1 = getField f r"
    by (cases "sectionField s") (auto simp: getField_assign)
  have "forEach ss ?r1 = Inr r'" using Cons.prems(2) step by simp
  moreover have "\<forall>s \<in> set ss. sectionField s \<noteq> Some f" using Cons.prems(1) by simp
  ultimately have "getField f r' = getField f ?r1" using Cons.IH by blast
  then show ?case using keep by simp
qed

text \<open>The last section given to a field decides the field, whatever came before.\<close>

lemma forEach_last_match:
  assumes "sectionField s = Some f" and "\<forall>s' \<in> set post. sectionField s' \<noteq> Some f"
    and "forEach (pre @ s # post) r = Inr r'"
  shows "getField f r' = transform f (body s)"
proof -
  obtain r0 where r0: "forEach pre r = Inr r0" using forEach_total by blast
  have step: "sectionCallback r0 s = Inr (assign f (body s) r0)"
    using sectionCallback_assign [of r0 s] assms(1) by simp
  have "forEach post (assign f (body s) r0) = Inr r'"
    using assms(3) r0 step by (simp add: forEach_append)
  then have "getField f r' = getField f (assign f (body s) r0)"
    using forEach_keeps_field assms(2) by blast
  then show ?thesis by (simp add: getField_assign)
qed

section \<open>Inputs without a blank line\<close>

text \<open>
  Claim C2, as stated: an input without two consecutive line breaks gives the record
  with every field at its default. It fails: such an input is one section, and the
  section is parsed like any other. The input below has no blank line, and its
  heading fills the project name.
\<close>

theorem no_blank_line_counterexample:
  "\<not> includesStr ''Project Name\<newline>Foo'' ''\<newline>\<newline>'' \<and>
   parseAiResponse ''Project Name\<newline>Foo'' \<noteq> Inr initialResult"
  by code_simp

text \<open>
  Claim C2, amended. An input without two consecutive line breaks is parsed as a
  single section: the result is what the callback makes of the whole text, starting
  from the defaults. Every field is at its default when the lower-cased first line
  contains none of the keyword substrings, or when the text has no line break at all
  (a heading without body lines).
\<close>

theorem single_section_defaults:
  assumes "\<not> includesStr rawText ''\<newline>\<newline>''"
  shows "parseAiResponse rawText = sectionCallback initialResult rawText \<and>
    ((\<forall>k \<in> set keywordList. \<not> includesStr (heading rawText) k) \<or>
      \<not> includesStr rawText ''\<newline>'' \<longrightarrow>
     parseAiResponse rawText = Inr initialResult)"
proof -
  have one: "split rawText ''\<newline>\<newline>'' = [rawText]"
    using assms by (simp add: split_no_occurrence)
  have run: "parseAiResponse rawText = sectionCallback initialResult rawText"
    using sectionCallback_total [of initialResult rawText]
    by (auto simp add: parseAiResponse_def one)
  have none: "sectionCallback initialResult rawText = Inr initialResult"
    if "\<forall>k \<in> set keywordList. \<not> includesStr (heading rawText) k"
    using that sectionCallback_assign [of initialResult rawText]
    by (simp add: sectionField_None_iff [symmetric])
  have bare: "sectionCallback initialResult rawText = Inr initialResult"
    if "\<not> includesStr rawText ''\<newline>''"
  proof -
    have "body rawText = []"
      using that by (simp add: body_def sectionLines_def slice_def split_no_occurrence)
    then show ?thesis
      using sectionCallback_assign [of initialResult rawText]
      by (cases "sectionField rawText") (simp_all add: assign_no_body)
  qed
  show ?thesis using run none bare by auto
qed

theorem single_section_defaults_witness:
  "\<not> includesStr ''Tech Stack'' ''\<newline>\<newline>'' \<and>
   \<not> includesStr ''Tech Stack'' ''\<newline>'' \<and>
   parseAiResponse ''Tech Stack'' = Inr initialResult"
proof -
  have a: "\<not> includesStr ''Tech Stack'' ''\<newline>\<newline>''" by code_simp
  have b: "\<not> includesStr ''Tech Stack'' ''\<newline>''" by code_simp
  show ?thesis using single_section_defaults [OF a] a b by blast
qed

section \<open>The project name and the tech stack\<close>

text \<open>
  Claim C3. For every section whose lower-cased heading contains \<^verbatim>\<open>project name\<close>, the
  callback sets \<^verbatim>\<open>projectName\<close> to the body lines joined with single spaces and
  trimmed, and changes nothing else; the input of a heading \<^verbatim>\<open>Project Name\<close> and a
  line \<^verbatim>\<open>Foo\<close> gives the project name \<^verbatim>\<open>Foo\<close>.
\<close>

theorem projectName_section:
  "(includesStr (heading section) ''project name'' \<longrightarrow>
      sectionCallback result section =
        Inr (result\<lparr>projectName := trim (join (body section) '' '')\<rparr>)) \<and>
   parseAiResponse ''Project Name\<newline>Foo'' = Inr (initialResult\<lparr>projectName := ''Foo''\<rparr>)"
proof -
  have "parseAiResponse ''Project Name\<newline>Foo'' = Inr (initialResult\<lparr>projectName := ''Foo''\<rparr>)"
    by code_simp
  then show ?thesis
    using sectionCallback_assign [of "result" "section"]
    by (simp add: sectionField_ProjectName_iff [symmetric])
qed

theorem projectName_section_witness:
  "includesStr (heading ''Project Name:\<newline> Auto\<newline>pilot '') ''project name'' \<and>
   sectionCallback initialResult ''Project Name:\<newline> Auto\<newline>pilot '' =
     Inr (initialResult\<lparr>projectName := ''Auto pilot''\<rparr>)"
proof -
  have h: "includesStr (heading ''Project Name:\<newline> Auto\<newline>pilot '') ''project name''"
    by code_simp
  have b: "trim (join (body ''Project Name:\<newline> Auto\<newline>pilot '') '' '') = ''Auto pilot''"
    by code_simp
  show ?thesis
    using projectName_section [where ?section = "''Project Name:\<newline> Auto\<newline>pilot ''"
        and ?result = initialResult] h b
    by metis
qed

text \<open>
  Claim C4, as stated: every section whose lower-cased heading contains
  \<^verbatim>\<open>tech stack\<close> sets \<^verbatim>\<open>techStack\<close>. It fails for a heading that contains
  \<^verbatim>\<open>project name\<close> as well: that keyword is tested first, the section goes to the
  project name and \<^verbatim>\<open>techStack\<close> is not assigned.
\<close>

theorem techStack_heading_counterexample:
  "includesStr (heading ''Project Name and Tech Stack\<newline>- Go'') ''tech stack'' \<and>
   sectionCallback initialResult ''Project Name and Tech Stack\<newline>- Go'' \<noteq>
     Inr (initialResult\<lparr>techStack :=
       map listEntry (body ''Project Name and Tech Stack\<newline>- Go'')\<rparr>)"
  by code_simp

text \<open>
  Claim C4, amended. For every section whose lower-cased heading contains
  \<^verbatim>\<open>tech stack\<close> and does not contain \<^verbatim>\<open>project name\<close>, the callback sets
  \<^verbatim>\<open>techStack\<close> to one entry per body line, the line with a leading dash and space
  removed and then trimmed; blank body lines stay as empty entries. The input
  \<^verbatim>\<open>Tech Stack\<close>, \<^verbatim>\<open>- Go\<close>, \<^verbatim>\<open>- Docker\<close> gives the entries \<^verbatim>\<open>Go\<close> and \<^verbatim>\<open>Docker\<close>.
\<close>

theorem techStack_section:
  "(includesStr (heading section) ''tech stack'' \<and>
    \<not> includesStr (heading section) ''project name'' \<longrightarrow>
      sectionCallback result section =
        Inr (result\<lparr>techStack := map listEntry (body section)\<rparr>)) \<and>
   parseAiResponse ''Tech Stack\<newline>- Go\<newline>- Docker'' =
     Inr (initialResult\<lparr>techStack := [''Go'', ''Docker'']\<rparr>) \<and>
   parseAiResponse ''Tech Stack\<newline>- Go\<newline> \<newline>- Docker\<newline>'' =
     Inr (initialResult\<lparr>techStack := [''Go'', [], ''Docker'', []]\<rparr>)"
proof -
  have 1: "parseAiResponse ''Tech Stack\<newline>- Go\<newline>- Docker'' =
     Inr (initialResult\<lparr>techStack := [''Go'', ''Docker'']\<rparr>)"
    by code_simp
  have 2: "parseAiResponse ''Tech Stack\<newline>- Go\<newline> \<newline>- Docker\<newline>'' =
     Inr (initialResult\<lparr>techStack := [''Go'', [], ''Docker'', []]\<rparr>)"
    by code_simp
  have 3: "sectionCallback result section =
        Inr (result\<lparr>techStack := map listEntry (body section)\<rparr>)"
    if "includesStr (heading section) ''tech stack''"
      and "\<not> includesStr (heading section) ''project name''"
  proof -
    have "sectionField section = Some TechStack"
      using that by (simp add: sectionField_TechStack_iff)
    then show ?thesis using sectionCallback_assign [of "result" "section"] by simp
  qed
  show ?thesis using 1 2 3 by blast
qed

theorem techStack_section_witness:
  "includesStr (heading ''Our tech stack\<newline>- TypeScript\<newline>-Node'') ''tech stack'' \<and>
   \<not> includesStr (heading ''Our tech stack\<newline>- TypeScript\<newline>-Node'') ''project name'' \<and>
   sectionCallback initialResult ''Our tech stack\<newline>- TypeScript\<newline>-Node'' =
     Inr (initialResult\<lparr>techStack := [''TypeScript'', ''-Node'']\<rparr>)"
proof -
  have h: "includesStr (heading ''Our tech stack\<newline>- TypeScript\<newline>-Node'') ''tech stack''"
    by code_simp
  have n: "\<not> includesStr (heading ''Our tech stack\<newline>- TypeScript\<newline>-Node'') ''project name''"
    by code_simp
  have b: "map listEntry (body ''Our tech stack\<newline>- TypeScript\<newline>-Node'') =
     [''TypeScript'', ''-Node'']"
    by code_simp
  show ?thesis
    using techStack_section [where ?section = "''Our tech stack\<newline>- TypeScript\<newline>-Node''"
        and ?result = initialResult] h n b
    by metis
qed

section \<open>Several sections for one field\<close>

text \<open>
  Claim C5. When several sections of the input are given to the same field, the
  field ends with the value of the last of them alone: whatever sections come before
  it, and whatever sections for other fields come after it, the field is the
  transformed body of that section, with nothing of the earlier ones. A section is
  given to a field by the first keyword rule that matches its heading. The input of
  two sections headed \<^verbatim>\<open>Summary\<close> with the bodies \<^verbatim>\<open>First\<close> and \<^verbatim>\<open>Second\<close> ends
  with the summary \<^verbatim>\<open>Second\<close>.
\<close>

theorem last_matching_section_wins:
  "(split rawText ''\<newline>\<newline>'' = pre @ section # post \<and>
    sectionField section = Some f \<and>
    (\<forall>s \<in> set post. sectionField s \<noteq> Some f) \<longrightarrow>
      (\<exists>r. parseAiResponse rawText = Inr r \<and> getField f r = transform f (body section))) \<and>
   parseAiResponse ''Summary\<newline>First\<newline>\<newline>Summary\<newline>Second'' =
     Inr (initialResult\<lparr>summary := ''Second''\<rparr>)"
proof -
  have ex: "parseAiResponse ''Summary\<newline>First\<newline>\<newline>Summary\<newline>Second'' =
     Inr (initialResult\<lparr>summary := ''Second''\<rparr>)"
    by code_simp
  have gen: "\<exists>r. parseAiResponse rawText = Inr r \<and> getField f r = transform f (body section)"
    if sp: "split rawText ''\<newline>\<newline>'' = pre @ section # post"
      and m: "sectionField section = Some f"
      and l: "\<forall>s \<in> set post. sectionField s \<noteq> Some f"
  proof -
    obtain r where r: "parseAiResponse rawText = Inr r"
      using parseAiResponse_Inr by blast
    then have "forEach (pre @ section # post) initialResult = Inr r"
      by (simp add: parseAiResponse_def sp)
    then have "getField f r = transform f (body section)"
      using forEach_last_match [OF m l] by blast
    then show ?thesis using r by blast
  qed
  show ?thesis using ex gen by blast
qed

theorem last_matching_section_wins_witness:
  "split ''Tech Stack\<newline>- Go\<newline>\<newline>Notes\<newline>x\<newline>\<newline>Tech stack\<newline>- Rust\<newline>\<newline>Summary\<newline>ok''
      ''\<newline>\<newline>'' =
     [''Tech Stack\<newline>- Go'', ''Notes\<newline>x''] @ ''Tech stack\<newline>- Rust'' # [''Summary\<newline>ok''] \<and>
   sectionField ''Tech stack\<newline>- Rust'' = Some TechStack \<and>
   sectionField ''Summary\<newline>ok'' \<noteq> Some TechStack \<and>
   (\<exists>r. parseAiResponse ''Tech Stack\<newline>- Go\<newline>\<newline>Notes\<newline>x\<newline>\<newline>Tech stack\<newline>- Rust\<newline>\<newline>Summary\<newline>ok'' = Inr r \<and>
        getField TechStack r = Items [''Rust''])"
proof -
  let ?t = "''Tech Stack\<newline>- Go\<newline>\<newline>Notes\<newline>x\<newline>\<newline>Tech stack\<newline>- Rust\<newline>\<newline>Summary\<newline>ok''"
  have sp: "split ?t ''\<newline>\<newline>'' =
     [''Tech Stack\<newline>- Go'', ''Notes\<newline>x''] @ ''Tech stack\<newline>- Rust'' # [''Summary\<newline>ok'']"
    by code_simp
  have m: "sectionField ''Tech stack\<newline>- Rust'' = Some TechStack"
    by code_simp
  have n: "sectionField ''Summary\<newline>ok'' \<noteq> Some TechStack"
    by code_simp
  have l: "\<forall>s \<in> set [''Summary\<newline>ok'']. sectionField s \<noteq> Some TechStack"
    using n by simp
  have b: "transform TechStack (body ''Tech stack\<newline>- Rust'') = Items [''Rust'']"
    by code_simp
  have "\<exists>r. parseAiResponse ?t = Inr r \<and>
      getField TechStack r = transform TechStack (body ''Tech stack\<newline>- Rust'')"
    using last_matching_section_wins [where ?rawText = ?t
        and ?pre = "[''Tech Stack\<newline>- Go'', ''Notes\<newline>x'']"
        and ?section = "''Tech stack\<newline>- Rust''" and ?post = "[''Summary\<newline>ok'']"
        and ?f = TechStack] sp m l
    by blast
  then have "\<exists>r. parseAiResponse ?t = Inr r \<and> getField TechStack r = Items [''Rust'']"
    by (simp only: b)
  then show ?thesis using sp m n by blast
qed

section \<open>One section, at most one field\<close>

text \<open>
  Claim C6. The callback tests the lower-cased heading against the keywords in the
  fixed order project name, tech stack, project purpose or project ideas, folder
  structure, summary; the first rule that matches decides. After the callback the
  field of that rule holds the transformed body and every other field is what it
  was, so a section contributes to at most one field. A heading with both
  \<^verbatim>\<open>project name\<close> and \<^verbatim>\<open>summary\<close> sets the project name only.
\<close>

theorem first_match_wins:
  "(\<exists>r'. sectionCallback result section = Inr r' \<and>
      (\<forall>g. getField g r' =
         (if firstMatch keywordRules (heading section) = Some g
          then transform g (body section) else getField g result))) \<and>
   sectionCallback result ''Project Name and Summary\<newline>Autopilot'' =
     Inr (result\<lparr>projectName := ''Autopilot''\<rparr>)"
proof -
  let ?r' = "case sectionField section of None \<Rightarrow> result | Some f \<Rightarrow> assign f (body section) result"
  have step: "sectionCallback result section = Inr ?r'"
    by (rule sectionCallback_assign)
  have "getField g ?r' =
         (if firstMatch keywordRules (heading section) = Some g
          then transform g (body section) else getField g result)" for g
    by (cases "sectionField section") (auto simp: getField_assign sectionField_def)
  then have gen: "\<exists>r'. sectionCallback result section = Inr r' \<and>
      (\<forall>g. getField g r' =
         (if firstMatch keywordRules (heading section) = Some g
          then transform g (body section) else getField g result))"
    using step by blast
  have f: "sectionField ''Project Name and Summary\<newline>Autopilot'' = Some ProjectName"
    by code_simp
  have b: "trim (join (body ''Project Name and Summary\<newline>Autopilot'') '' '') = ''Autopilot''"
    by code_simp
  have ex: "sectionCallback result ''Project Name and Summary\<newline>Autopilot'' =
     Inr (result\<lparr>projectName := ''Autopilot''\<rparr>)"
    using sectionCallback_assign [of "result" "''Project Name and Summary\<newline>Autopilot''"] f b
    by simp
  show ?thesis using gen ex by blast
qed

text \<open>
  Claim C7. A section whose lower-cased heading contains none of the keywords is
  ignored: the callback returns the record unchanged and raises nothing. A field to
  which no section of the input is given has its default in the result. The input
  \<^verbatim>\<open>Random Header\<close>, \<^verbatim>\<open>some text\<close> gives the record of defaults.
\<close>

theorem unmatched_section_ignored:
  "((\<forall>k \<in> set keywordList. \<not> includesStr (heading section) k) \<longrightarrow>
      sectionCallback result section = Inr result) \<and>
   ((\<forall>s \<in> set (split rawText ''\<newline>\<newline>''). sectionField s \<noteq> Some f) \<longrightarrow>
      (\<exists>r. parseAiResponse rawText = Inr r \<and> getField f r = getField f initialResult)) \<and>
   parseAiResponse ''Random Header\<newline>some text'' = Inr initialResult"
proof -
  have a: "sectionCallback result section = Inr result"
    if "\<forall>k \<in> set keywordList. \<not> includesStr (heading section) k"
    using that sectionCallback_assign [of "result" "section"]
    by (simp add: sectionField_None_iff [symmetric])
  have b: "\<exists>r. parseAiResponse rawText = Inr r \<and> getField f r = getField f initialResult"
    if n: "\<forall>s \<in> set (split rawText ''\<newline>\<newline>''). sectionField s \<noteq> Some f"
  proof -
    obtain r where r: "parseAiResponse rawText = Inr r"
      using parseAiResponse_Inr by blast
    then have "forEach (split rawText ''\<newline>\<newline>'') initialResult = Inr r"
      by (simp add: parseAiResponse_def)
    then have "getField f r = getField f initialResult"
      using forEach_keeps_field [OF n] by blast
    then show ?thesis using r by blast
  qed
  have c: "parseAiResponse ''Random Header\<newline>some text'' = Inr initialResult"
    by code_simp
  show ?thesis using a b c by blast
qed

theorem unmatched_section_ignored_witness:
  "list_all (\<lambda>k. \<not> includesStr (heading ''Notes\<newline>- keep me'') k) keywordList \<and>
   sectionCallback (initialResult\<lparr>summary := ''kept''\<rparr>) ''Notes\<newline>- keep me'' =
     Inr (initialResult\<lparr>summary := ''kept''\<rparr>) \<and>
   list_all (\<lambda>s. sectionField s \<noteq> Some TechStack)
     (split ''Summary\<newline>done\<newline>\<newline>Notes\<newline>- keep me'' ''\<newline>\<newline>'') \<and>
   (\<exists>r. parseAiResponse ''Summary\<newline>done\<newline>\<newline>Notes\<newline>- keep me'' = Inr r \<and>
        getField TechStack r = getField TechStack initialResult)"
proof -
  let ?s = "''Notes\<newline>- keep me''"
  let ?t = "''Summary\<newline>done\<newline>\<newline>Notes\<newline>- keep me''"
  have h: "list_all (\<lambda>k. \<not> includesStr (heading ?s) k) keywordList"
    by code_simp
  have n: "list_all (\<lambda>s. sectionField s \<noteq> Some TechStack) (split ?t ''\<newline>\<newline>'')"
    by code_simp
  have h': "\<forall>k \<in> set keywordList. \<not> includesStr (heading ?s) k"
    using h by (simp only: list_all_iff)
  have n': "\<forall>s \<in> set (split ?t ''\<newline>\<newline>''). sectionField s \<noteq> Some TechStack"
    using n by (simp only: list_all_iff)
  have "sectionCallback (initialResult\<lparr>summary := ''kept''\<rparr>) ?s =
      Inr (initialResult\<lparr>summary := ''kept''\<rparr>) \<and>
    (\<exists>r. parseAiResponse ?t = Inr r \<and>
        getField TechStack r = getField TechStack initialResult)"
    using unmatched_section_ignored [where ?section = ?s
        and ?result = "initialResult\<lparr>summary := ''kept''\<rparr>"
        and ?rawText = ?t and ?f = TechStack] h' n'
    by blast
  then show ?thesis using h n by blast
qed

section \<open>Two calls on the same text\<close>

text \<open>With the result object in the store, the loop writes what the pure loop computes.\<close>

lemma forEachRef_forEach:
  "a < length h \<Longrightarrow>
   forEachRef ss a h = (case forEach ss (h ! a) of Inl e \<Rightarrow> Inl e | Inr r \<Rightarrow> Inr (h[a := r]))"
proof (induction ss arbitrary: h)
  case Nil
  then show ?case by simp
next
  case (Cons s ss)
  obtain v where v: "sectionCallback (h ! a) s = Inr v" using sectionCallback_total by blast
  have "a < length (h[a := v])" using Cons.prems by simp
  then have "forEachRef ss a (h[a := v]) =
     (case forEach ss ((h[a := v]) ! a) of Inl e \<Rightarrow> Inl e | Inr r \<Rightarrow> Inr ((h[a := v])[a := r]))"
    by (rule Cons.IH)
  then show ?case using v Cons.prems by (simp split: sum.splits)
qed

lemma parseAiResponseRef_eq:
  "parseAiResponseRef rawText h =
     (case parseAiResponse rawText of Inl e \<Rightarrow> Inl e | Inr r \<Rightarrow> Inr (length h, h @ [r]))"
  by (simp add: parseAiResponseRef_def parseAiResponse_def alloc_def forEachRef_forEach
      split: sum.splits)

text \<open>
  Claim C8. Two calls on the same text, the second running in the store the first
  one left, both return; they return two different objects with equal contents; the
  second call leaves the object of the first, and every older object, as it was; and
  the contents do not depend on the store the first call started in.
\<close>

theorem parseAiResponse_repeatable:
  "\<exists>r1 h1 r2 h2.
     parseAiResponseRef rawText h = Inr (r1, h1) \<and>
     parseAiResponseRef rawText h1 = Inr (r2, h2) \<and>
     r1 \<noteq> r2 \<and> h2 ! r2 = h1 ! r1 \<and> h2 ! r1 = h1 ! r1 \<and>
     take (length h) h1 = h \<and> take (length h1) h2 = h1 \<and>
     parseAiResponse rawText = Inr (h1 ! r1)"
proof -
  obtain r where r: "parseAiResponse rawText = Inr r" using parseAiResponse_Inr by blast
  have 1: "parseAiResponseRef rawText h = Inr (length h, h @ [r])"
    by (simp add: parseAiResponseRef_eq r)
  have 2: "parseAiResponseRef rawText (h @ [r]) = Inr (Suc (length h), h @ [r] @ [r])"
    by (simp add: parseAiResponseRef_eq r)
  show ?thesis
    apply (rule exI [of _ "length h"], rule exI [of _ "h @ [r]"])
    apply (rule exI [of _ "Suc (length h)"], rule exI [of _ "h @ [r] @ [r]"])
    using 1 2 r by (simp add: nth_append)
qed

section \<open>The missing key\<close>

text \<open>With a key, the request is posted and carries the key.\<close>

lemma analyzeWithKey_fetches:
  "key \<noteq> [] \<Longrightarrow>
   \<exists>req. fst (analyzeWithKey key e structure files) = [GetConfiguration ''autopilot'', Fetch req] \<and>
     authorization req = ''Bearer '' @ key"
  by (simp add: analyzeWithKey_def Let_def split: sum.splits)

text \<open>
  Claim C9. Without a key \<^verbatim>\<open>analyzeWithDeepSeek\<close> raises the configuration error,
  and the only effect performed up to then is reading the configuration: no request
  has been posted, whatever the network would answer. The key in the source is the
  empty string, so this is what every call does.
\<close>

theorem missing_key_raises_before_fetch:
  "analyzeWithKey [] e structure files =
     ([GetConfiguration ''autopilot''],
      Inl (Error ''DeepSeek API key not configured. Check extension settings.'')) \<and>
   analyzeWithDeepSeek e structure files =
     ([GetConfiguration ''autopilot''],
      Inl (Error ''DeepSeek API key not configured. Check extension settings.''))"
  by (simp add: analyzeWithDeepSeek_def apiKey_def analyzeWithKey_def)

section \<open>The list marker\<close>

text \<open>
  Claim C10. An entry of a list field is the body line with the marker removed and
  then trimmed. The marker is removed only when the line starts with a dash and a
  space, and once: \<^verbatim>\<open>-Go\<close> stays, a doubled marker loses its first copy, and an
  indented marker is not removed, since trimming comes after. Both list fields,
  the tech stack and the project ideas, are filled with such entries.
\<close>

theorem marker_stripped_once_before_trim:
  "listEntry line = trim (if startsWith line ''- '' then drop 2 line else line) \<and>
   listEntry ''-Go'' = ''-Go'' \<and>
   listEntry ''- - x'' = ''- x'' \<and>
   listEntry ''  - Go'' = ''- Go'' \<and>
   parseAiResponse ''Tech Stack\<newline>-Go\<newline>- - x\<newline>  - Go'' =
     Inr (initialResult\<lparr>techStack := [''-Go'', ''- x'', ''- Go'']\<rparr>) \<and>
   parseAiResponse ''Project Ideas\<newline>-Go\<newline>- - x\<newline>  - Go'' =
     Inr (initialResult\<lparr>projectIdeas := [''-Go'', ''- x'', ''- Go'']\<rparr>)"
proof -
  have entries: "listEntry ''-Go'' = ''-Go'' \<and> listEntry ''- - x'' = ''- x'' \<and>
     listEntry ''  - Go'' = ''- Go''"
    by code_simp
  have stack: "parseAiResponse ''Tech Stack\<newline>-Go\<newline>- - x\<newline>  - Go'' =
     Inr (initialResult\<lparr>techStack := [''-Go'', ''- x'', ''- Go'']\<rparr>)"
    by code_simp
  have ideas: "parseAiResponse ''Project Ideas\<newline>-Go\<newline>- - x\<newline>  - Go'' =
     Inr (initialResult\<lparr>projectIdeas := [''-Go'', ''- x'', ''- Go'']\<rparr>)"
    by code_simp
  have "listEntry line = trim (if startsWith line ''- '' then drop 2 line else line)"
    by (simp add: listEntry_def replaceMarker_eq)
  then show ?thesis using entries stack ideas by blast
qed

end
